theory Spec2Isabelle
  imports Main "HOL-Library.Word" "HOL-Library.Sublist"
begin

section \<open>The KY-027 light-cup sketch (src/main.cpp)\<close>

text \<open>
  The sketch is one Arduino translation unit: a handful of globals, \<open>setup\<close>, \<open>loop\<close> and
  two display helpers. The globals become a record that every function takes and returns;
  each call into the hardware (\<open>pinMode\<close>, \<open>analogWrite\<close>, the TFT driver) is appended to
  an output log, in program order; the two things the program reads from its environment
  (\<open>millis()\<close> and \<open>digitalRead(pin)\<close>) are the fields of an input record, one per
  iteration of \<open>loop\<close>.

  Integer types, on the board the sketch is written for (ESP32-S3, 32-bit):
  \<^item> \<open>unsigned long\<close> is 32 bits, so the two timestamps and \<open>millis()\<close> are \<open>32 word\<close>;
    \<open>currentMillis - previousReadMillis\<close> wraps, and the comparison with the \<open>const long\<close>
    interval is unsigned (the \<open>long\<close> is converted to \<open>unsigned long\<close>);
  \<^item> \<open>int\<close> is 32 bits signed. The brightness is modelled as \<open>int\<close>: the sketch adds the
    step only below 255 and subtracts it only above 0, so no 32-bit value overflows
    (lemma \<open>ramp_no_overflow\<close> below).
\<close>

subsection \<open>Constants of the Arduino core and of the sketch\<close>

type_synonym ulong = "32 word"

definition LOW :: int where "LOW = 0"
definition HIGH :: int where "HIGH = 1"

datatype pin_mode = INPUT | OUTPUT
datatype colour = TFT_BLACK | TFT_WHITE

definition switchPinA :: int where "switchPinA = 3"
definition ledPinA :: int where "ledPinA = 2"
definition switchPinB :: int where "switchPinB = 18"
definition ledPinB :: int where "ledPinB = 44"

definition readInterval :: ulong where "readInterval = 5"
definition updateInterval :: ulong where "updateInterval = 100"
definition brightnessSteps :: int where "brightnessSteps = 2"

subsection \<open>Hardware effects and program state\<close>

datatype event =
    PinMode int pin_mode
  | TftInit
  | SetRotation int
  | FillScreen colour
  | SetTextFont int
  | SetTextColor colour colour
  | SetCursor int int
  | Println string
  | PrintStr string
  | PrintInt int
  | AnalogWrite int int

record state =
  previousReadMillis :: ulong
  previousUpdateMillis :: ulong
  switchStateA :: int
  switchStateB :: int
  brightnessA :: int
  brightnessB :: int
  redrawRequired :: bool
  out :: "event list"

record input =
  millis :: ulong
  digitalRead :: "int \<Rightarrow> int"

text \<open>The initialisers of the globals (lines 46-57); nothing has been output yet.\<close>

definition init_state :: state where
  "init_state = \<lparr> previousReadMillis = 0, previousUpdateMillis = 0,
                  switchStateA = HIGH, switchStateB = HIGH,
                  brightnessA = 0, brightnessB = 0,
                  redrawRequired = True, out = [] \<rparr>"

definition emits :: "event list \<Rightarrow> state \<Rightarrow> state" where
  "emits es s = s\<lparr>out := out s @ es\<rparr>"

subsection \<open>Display helpers (lines 65-100)\<close>

definition drawStaticElements :: "state \<Rightarrow> state" where
  "drawStaticElements s =
     emits [FillScreen TFT_BLACK, SetTextFont 2, SetTextColor TFT_WHITE TFT_BLACK,
            SetCursor 0 0,
            Println ''---------------------------'',
            Println '' KY027 Magic Light Cups'',
            Println ''---------------------------'',
            SetCursor 0 70, PrintStr ''LED A Brightness:'',
            SetCursor 0 120, PrintStr ''LED B Brightness:''] s"

definition updateDynamicElements :: "state \<Rightarrow> state" where
  "updateDynamicElements s =
     emits [SetCursor 0 90, PrintStr ''      '', SetCursor 0 90, PrintInt (brightnessA s),
            SetCursor 0 140, PrintStr ''      '', SetCursor 0 140, PrintInt (brightnessB s)] s"

subsection \<open>setup (lines 108-144)\<close>

definition "setup" :: "input \<Rightarrow> state \<Rightarrow> state" where
  "setup i s0 =
     (let s = emits [PinMode switchPinA INPUT, PinMode ledPinA OUTPUT,
                     PinMode switchPinB INPUT, PinMode ledPinB OUTPUT,
                     TftInit, SetRotation 0, FillScreen TFT_BLACK, SetTextFont 2,
                     SetTextColor TFT_WHITE TFT_BLACK] s0;
          s = drawStaticElements s;
          s = s\<lparr>switchStateA := digitalRead i switchPinA\<rparr>;
          s = s\<lparr>switchStateB := digitalRead i switchPinB\<rparr>;
          s = (if switchStateA s = LOW then s\<lparr>brightnessA := 255\<rparr> else s);
          s = (if switchStateB s = LOW then s\<lparr>brightnessB := 255\<rparr> else s);
          s = emits [AnalogWrite ledPinA (brightnessA s)] s;
          s = emits [AnalogWrite ledPinB (brightnessB s)] s;
          s = s\<lparr>redrawRequired := True\<rparr>
      in s)"

subsection \<open>loop (lines 148-203)\<close>

text \<open>Lines 162-174: the fade of LED A, on the switch state just read.\<close>

definition fadeA :: "state \<Rightarrow> state" where
  "fadeA s =
     (if switchStateA s = LOW then
        (if brightnessA s < 255 then
           (let s1 = s\<lparr>brightnessA := brightnessA s + brightnessSteps\<rparr>
            in if brightnessA s1 > 255 then s1\<lparr>brightnessA := 255\<rparr> else s1)
         else s)
      else
        (if brightnessA s > 0 then
           (let s1 = s\<lparr>brightnessA := brightnessA s - brightnessSteps\<rparr>
            in if brightnessA s1 < 0 then s1\<lparr>brightnessA := 0\<rparr> else s1)
         else s))"

text \<open>Lines 177-189: the same for LED B.\<close>

definition fadeB :: "state \<Rightarrow> state" where
  "fadeB s =
     (if switchStateB s = LOW then
        (if brightnessB s < 255 then
           (let s1 = s\<lparr>brightnessB := brightnessB s + brightnessSteps\<rparr>
            in if brightnessB s1 > 255 then s1\<lparr>brightnessB := 255\<rparr> else s1)
         else s)
      else
        (if brightnessB s > 0 then
           (let s1 = s\<lparr>brightnessB := brightnessB s - brightnessSteps\<rparr>
            in if brightnessB s1 < 0 then s1\<lparr>brightnessB := 0\<rparr> else s1)
         else s))"

text \<open>The body of the first \<open>if\<close> of \<open>loop\<close> (lines 153-193): the sample-and-actuate stage.\<close>

definition sample_stage :: "ulong \<Rightarrow> input \<Rightarrow> state \<Rightarrow> state" where
  "sample_stage currentMillis i s0 =
     (let s = s0\<lparr>previousReadMillis := currentMillis\<rparr>;
          s = s\<lparr>switchStateA := digitalRead i switchPinA\<rparr>;
          s = s\<lparr>switchStateB := digitalRead i switchPinB\<rparr>;
          s = fadeA s;
          s = fadeB s;
          s = emits [AnalogWrite ledPinA (brightnessA s)] s;
          s = emits [AnalogWrite ledPinB (brightnessB s)] s
      in s)"

text \<open>The body of the second \<open>if\<close> (lines 198-201): the render stage.\<close>

definition render_stage :: "ulong \<Rightarrow> state \<Rightarrow> state" where
  "render_stage currentMillis s0 =
     (let s = s0\<lparr>previousUpdateMillis := currentMillis\<rparr>;
          s = updateDynamicElements s
      in s)"

text \<open>
  The two conditions of \<open>loop\<close> (lines 152 and 197). The subtraction is on 32-bit
  unsigned values and the comparison is unsigned.
\<close>

definition sample_due :: "ulong \<Rightarrow> state \<Rightarrow> bool" where
  "sample_due currentMillis s = (currentMillis - previousReadMillis s \<ge> readInterval)"

definition render_due :: "ulong \<Rightarrow> state \<Rightarrow> bool" where
  "render_due currentMillis s = (currentMillis - previousUpdateMillis s \<ge> updateInterval)"

definition loop :: "input \<Rightarrow> state \<Rightarrow> state" where
  "loop i s0 =
     (let currentMillis = millis i;
          s = (if sample_due currentMillis s0 then sample_stage currentMillis i s0 else s0);
          s = (if render_due currentMillis s then render_stage currentMillis s else s)
      in s)"

text \<open>
  The Arduino core calls \<open>setup\<close> once and then \<open>loop\<close> for ever. A finite prefix of that
  execution is \<open>boot\<close> on the globals' initial values followed by one \<open>loop\<close> per input.
\<close>

fun run :: "input list \<Rightarrow> state \<Rightarrow> state" where
  "run [] s = s"
| "run (i # is) s = run is (loop i s)"

definition boot :: "input \<Rightarrow> state" where
  "boot i0 = setup i0 init_state"

text \<open>A run of sample ticks only: the sample stage executed once per input.\<close>

fun ticks :: "input list \<Rightarrow> state \<Rightarrow> state" where
  "ticks [] s = s"
| "ticks (i # is) s = ticks is (sample_stage (millis i) i s)"

subsection \<open>One channel on its own\<close>

text \<open>
  Lines 162-174 and 177-189 are the same statement on two sets of variables. \<open>ramp\<close> is
  that statement on one brightness value; \<open>fadeA_ramp\<close> and \<open>fadeB_ramp\<close> below tie it to
  the two copies.
\<close>

definition ramp :: "int \<Rightarrow> int \<Rightarrow> int" where
  "ramp sw b =
     (if sw = LOW then
        (if b < 255 then (let b1 = b + brightnessSteps in if b1 > 255 then 255 else b1)
         else b)
      else
        (if b > 0 then (let b1 = b - brightnessSteps in if b1 < 0 then 0 else b1)
         else b))"

text \<open>The path conditions of the two clamping assignments (lines 165/180 and 172/187).\<close>

definition clamp_hi_runs :: "int \<Rightarrow> int \<Rightarrow> bool" where
  "clamp_hi_runs sw b = (sw = LOW \<and> b < 255 \<and> b + brightnessSteps > 255)"

definition clamp_lo_runs :: "int \<Rightarrow> int \<Rightarrow> bool" where
  "clamp_lo_runs sw b = (sw \<noteq> LOW \<and> b > 0 \<and> b - brightnessSteps < 0)"

text \<open>
  The reference transition of the specification (section 4.2), in its words:
  tilted moves \<open>brightness = min(255, brightness + step)\<close>, not tilted moves
  \<open>brightness = max(0, brightness - step)\<close>, with \<open>step = 2\<close>.
\<close>

definition ramp_ref :: "bool \<Rightarrow> int \<Rightarrow> int" where
  "ramp_ref tilted b = (if tilted then min 255 (b + 2) else max 0 (b - 2))"

subsection \<open>Observing a run\<close>

text \<open>
  The control flow of \<open>loop\<close> with the two branches it takes recorded: the first flag is
  the outcome of the test of line 152 on the state at entry, the second the outcome of the
  test of line 197 on the state the first \<open>if\<close> leaves.
\<close>

definition loop_fires :: "input \<Rightarrow> state \<Rightarrow> bool \<times> bool" where
  "loop_fires i s0 =
     (let currentMillis = millis i;
          f1 = sample_due currentMillis s0;
          s = (if f1 then sample_stage currentMillis i s0 else s0);
          f2 = render_due currentMillis s
      in (f1, f2))"

text \<open>
  Text drawn on the display other than the six-space blank of \<open>updateDynamicElements\<close>:
  the header lines and the labels.
\<close>

fun is_label :: "event \<Rightarrow> bool" where
  "is_label (Println t) = True"
| "is_label (PrintStr t) = (t \<noteq> ''      '')"
| "is_label _ = False"

text \<open>Calls into the TFT driver, as opposed to calls on the GPIO pins.\<close>

fun is_display :: "event \<Rightarrow> bool" where
  "is_display (PinMode p m) = False"
| "is_display (AnalogWrite p v) = False"
| "is_display _ = True"

text \<open>
  What an iteration of \<open>loop\<close> did, read off its result: \<open>emitted i s\<close> is what the
  iteration appended to the output. The sample-and-actuate stage has executed in the
  iteration when a PWM write is among these calls, the render stage when a call of the
  TFT driver is.
\<close>

fun is_pwm :: "event \<Rightarrow> bool" where
  "is_pwm (AnalogWrite p v) = True"
| "is_pwm _ = False"

definition emitted :: "input \<Rightarrow> state \<Rightarrow> event list" where
  "emitted i s = drop (length (out s)) (out (loop i s))"

definition sample_ran :: "input \<Rightarrow> state \<Rightarrow> bool" where
  "sample_ran i s = list_ex is_pwm (emitted i s)"

definition render_ran :: "input \<Rightarrow> state \<Rightarrow> bool" where
  "render_ran i s = list_ex is_display (emitted i s)"

text \<open>The clock readings at which each stage executed, in order, over a run of \<open>loop\<close>.\<close>

fun sample_times :: "input list \<Rightarrow> state \<Rightarrow> ulong list" where
  "sample_times [] s = []"
| "sample_times (i # is) s =
     (if sample_ran i s then [millis i] else []) @ sample_times is (loop i s)"

fun render_times :: "input list \<Rightarrow> state \<Rightarrow> ulong list" where
  "render_times [] s = []"
| "render_times (i # is) s =
     (if render_ran i s then [millis i] else []) @ render_times is (loop i s)"

text \<open>
  The same with real time. The clock is a millisecond counter that wraps at \<open>2 ^ 32\<close>:
  an iteration that begins \<open>T\<close> milliseconds after reset reads \<open>word_of_nat T\<close>.
  \<open>clocked T0 xs\<close> says that the iterations \<open>xs\<close>, each paired with its real time, begin
  at or after \<open>T0\<close>, in order of time, and read the clock so.
\<close>

fun clocked :: "nat \<Rightarrow> (nat \<times> input) list \<Rightarrow> bool" where
  "clocked T0 [] = True"
| "clocked T0 ((T, i) # xs) = (T0 \<le> T \<and> millis i = word_of_nat T \<and> clocked T xs)"

fun sample_real_times :: "(nat \<times> input) list \<Rightarrow> state \<Rightarrow> nat list" where
  "sample_real_times [] s = []"
| "sample_real_times ((T, i) # xs) s =
     (if sample_ran i s then [T] else []) @ sample_real_times xs (loop i s)"

fun render_real_times :: "(nat \<times> input) list \<Rightarrow> state \<Rightarrow> nat list" where
  "render_real_times [] s = []"
| "render_real_times ((T, i) # xs) s =
     (if render_ran i s then [T] else []) @ render_real_times xs (loop i s)"

definition in_range :: "state \<Rightarrow> bool" where
  "in_range s = (0 \<le> brightnessA s \<and> brightnessA s \<le> 255 \<and> 0 \<le> brightnessB s \<and> brightnessB s \<le> 255)"

section \<open>Basic facts\<close>

lemma fadeA_ramp: "brightnessA (fadeA s) = ramp (switchStateA s) (brightnessA s)"
  by (simp add: fadeA_def ramp_def Let_def)

lemma fadeB_ramp: "brightnessB (fadeB s) = ramp (switchStateB s) (brightnessB s)"
  by (simp add: fadeB_def ramp_def Let_def)

lemma fadeA_frame:
  "brightnessB (fadeA s) = brightnessB s" "switchStateA (fadeA s) = switchStateA s"
  "switchStateB (fadeA s) = switchStateB s" "out (fadeA s) = out s"
  "previousReadMillis (fadeA s) = previousReadMillis s"
  "previousUpdateMillis (fadeA s) = previousUpdateMillis s"
  "redrawRequired (fadeA s) = redrawRequired s"
  by (simp_all add: fadeA_def Let_def)

lemma fadeB_frame:
  "brightnessA (fadeB s) = brightnessA s" "switchStateA (fadeB s) = switchStateA s"
  "switchStateB (fadeB s) = switchStateB s" "out (fadeB s) = out s"
  "previousReadMillis (fadeB s) = previousReadMillis s"
  "previousUpdateMillis (fadeB s) = previousUpdateMillis s"
  "redrawRequired (fadeB s) = redrawRequired s"
  by (simp_all add: fadeB_def Let_def)

text \<open>What the sample stage does to each field.\<close>

lemma sample_stage_fields:
  "brightnessA (sample_stage t i s) = ramp (digitalRead i switchPinA) (brightnessA s)"
  "brightnessB (sample_stage t i s) = ramp (digitalRead i switchPinB) (brightnessB s)"
  "switchStateA (sample_stage t i s) = digitalRead i switchPinA"
  "switchStateB (sample_stage t i s) = digitalRead i switchPinB"
  "previousReadMillis (sample_stage t i s) = t"
  "previousUpdateMillis (sample_stage t i s) = previousUpdateMillis s"
  "redrawRequired (sample_stage t i s) = redrawRequired s"
  "out (sample_stage t i s) = out s @
     [AnalogWrite ledPinA (ramp (digitalRead i switchPinA) (brightnessA s)),
      AnalogWrite ledPinB (ramp (digitalRead i switchPinB) (brightnessB s))]"
  by (simp_all add: sample_stage_def Let_def emits_def fadeA_ramp fadeB_ramp
      fadeA_frame fadeB_frame)

lemma render_stage_eq:
  "render_stage t s = s\<lparr>previousUpdateMillis := t,
     out := out s @ [SetCursor 0 90, PrintStr ''      '', SetCursor 0 90, PrintInt (brightnessA s),
                     SetCursor 0 140, PrintStr ''      '', SetCursor 0 140, PrintInt (brightnessB s)]\<rparr>"
  by (simp add: render_stage_def updateDynamicElements_def emits_def Let_def)

text \<open>
  No 32-bit overflow: from any \<open>int\<close> value the machine can hold, the value the sketch
  computes before clamping and the value it stores are again 32-bit values.
\<close>

lemma ramp_no_overflow:
  assumes "- (2 ^ 31) \<le> b" "b < 2 ^ 31"
  shows "- (2 ^ 31) \<le> ramp sw b \<and> ramp sw b < 2 ^ 31
       \<and> (sw = LOW \<and> b < 255 \<longrightarrow> b + brightnessSteps < 2 ^ 31)
       \<and> (sw \<noteq> LOW \<and> b > 0 \<longrightarrow> - (2 ^ 31) \<le> b - brightnessSteps)"
  using assms by (auto simp: ramp_def brightnessSteps_def Let_def)

lemma ramp_range: "0 \<le> b \<Longrightarrow> b \<le> 255 \<Longrightarrow> 0 \<le> ramp sw b \<and> ramp sw b \<le> 255"
  by (auto simp: ramp_def brightnessSteps_def Let_def)

text \<open>What one iteration of \<open>loop\<close> does to the brightness values and the two timestamps.\<close>

lemma loop_fields:
  "brightnessA (loop i s) =
     (if sample_due (millis i) s then ramp (digitalRead i switchPinA) (brightnessA s)
      else brightnessA s)"
  "brightnessB (loop i s) =
     (if sample_due (millis i) s then ramp (digitalRead i switchPinB) (brightnessB s)
      else brightnessB s)"
  "previousReadMillis (loop i s) =
     (if sample_due (millis i) s then millis i else previousReadMillis s)"
  "previousUpdateMillis (loop i s) =
     (if render_due (millis i) s then millis i else previousUpdateMillis s)"
  by (simp_all add: loop_def Let_def sample_stage_fields render_stage_eq render_due_def)

lemma boot_fields:
  "brightnessA (boot i0) = (if digitalRead i0 switchPinA = LOW then 255 else 0)"
  "brightnessB (boot i0) = (if digitalRead i0 switchPinB = LOW then 255 else 0)"
  "previousReadMillis (boot i0) = 0"
  "previousUpdateMillis (boot i0) = 0"
  by (simp_all add: boot_def setup_def init_state_def Let_def emits_def drawStaticElements_def)

section \<open>The brightness invariant\<close>

lemma loop_in_range: "in_range s \<Longrightarrow> in_range (loop i s)"
  by (simp add: in_range_def loop_fields ramp_range)

lemma sample_stage_in_range: "in_range s \<Longrightarrow> in_range (sample_stage t i s)"
  by (simp add: in_range_def sample_stage_fields ramp_range)

lemma run_in_range: "in_range s \<Longrightarrow> in_range (run ins s)"
  by (induction ins arbitrary: s) (simp_all add: loop_in_range)

lemma ticks_in_range: "in_range s \<Longrightarrow> in_range (ticks ins s)"
  by (induction ins arbitrary: s) (simp_all add: sample_stage_in_range)

lemma boot_in_range: "in_range (boot i0)"
  by (simp add: in_range_def boot_fields)

text \<open>
  C1. Whatever the switches read at startup (\<open>i0\<close>) and whatever the clock and the switches
  read afterwards (\<open>ins\<close>, one entry per iteration of \<open>loop\<close>, of any length), both
  brightness values are within 0..255 after the last iteration, hence after every one
  of them. The same holds when every iteration is a sample tick.
\<close>

theorem brightness_in_range:
  "0 \<le> brightnessA (run ins (boot i0)) \<and> brightnessA (run ins (boot i0)) \<le> 255
   \<and> 0 \<le> brightnessB (run ins (boot i0)) \<and> brightnessB (run ins (boot i0)) \<le> 255
   \<and> 0 \<le> brightnessA (ticks ins (boot i0)) \<and> brightnessA (ticks ins (boot i0)) \<le> 255
   \<and> 0 \<le> brightnessB (ticks ins (boot i0)) \<and> brightnessB (ticks ins (boot i0)) \<le> 255"
  using run_in_range [OF boot_in_range, of ins i0] ticks_in_range [OF boot_in_range, of ins i0]
  by (simp add: in_range_def)

section \<open>The ramp against its reference, and its step\<close>

lemma ramp_eq_ramp_ref:
  "0 \<le> b \<Longrightarrow> b \<le> 255 \<Longrightarrow> ramp sw b = ramp_ref (sw = LOW) b"
  by (auto simp: ramp_def ramp_ref_def brightnessSteps_def Let_def)

text \<open>
  C2. In every state the program reaches (any run of \<open>loop\<close> after startup), a sample tick
  moves each channel's brightness to the value of the reference transition, applied once:
  \<open>min 255 (b + 2)\<close> when the switch reads LOW, \<open>max 0 (b - 2)\<close> otherwise. An iteration
  of \<open>loop\<close> applies it once when the sample stage is due and leaves the brightness alone
  when it is not.
\<close>

theorem update_is_reference_once:
  "brightnessA (sample_stage t i (run ins (boot i0))) =
     ramp_ref (digitalRead i switchPinA = LOW) (brightnessA (run ins (boot i0)))
   \<and> brightnessB (sample_stage t i (run ins (boot i0))) =
     ramp_ref (digitalRead i switchPinB = LOW) (brightnessB (run ins (boot i0)))
   \<and> brightnessA (loop i (run ins (boot i0))) =
     (if fst (loop_fires i (run ins (boot i0)))
      then ramp_ref (digitalRead i switchPinA = LOW) (brightnessA (run ins (boot i0)))
      else brightnessA (run ins (boot i0)))
   \<and> brightnessB (loop i (run ins (boot i0))) =
     (if fst (loop_fires i (run ins (boot i0)))
      then ramp_ref (digitalRead i switchPinB = LOW) (brightnessB (run ins (boot i0)))
      else brightnessB (run ins (boot i0)))"
proof -
  have "in_range (run ins (boot i0))"
    by (rule run_in_range [OF boot_in_range])
  then show ?thesis
    by (simp add: in_range_def sample_stage_fields loop_fields loop_fires_def Let_def
        ramp_eq_ramp_ref)
qed

lemma ramp_step:
  "\<bar>ramp sw b - b\<bar> \<le> 2" "sw = LOW \<Longrightarrow> b \<le> ramp sw b" "sw \<noteq> LOW \<Longrightarrow> ramp sw b \<le> b"
  by (auto simp: ramp_def brightnessSteps_def Let_def)

text \<open>
  C9. A sample tick changes each brightness by at most 2, upwards or not at all when the
  switch reads LOW, downwards or not at all otherwise. This holds from every state.
\<close>

theorem step_bounded_monotone:
  "\<bar>brightnessA (sample_stage t i s) - brightnessA s\<bar> \<le> 2
   \<and> \<bar>brightnessB (sample_stage t i s) - brightnessB s\<bar> \<le> 2
   \<and> (digitalRead i switchPinA = LOW \<longrightarrow> brightnessA s \<le> brightnessA (sample_stage t i s))
   \<and> (digitalRead i switchPinA \<noteq> LOW \<longrightarrow> brightnessA (sample_stage t i s) \<le> brightnessA s)
   \<and> (digitalRead i switchPinB = LOW \<longrightarrow> brightnessB s \<le> brightnessB (sample_stage t i s))
   \<and> (digitalRead i switchPinB \<noteq> LOW \<longrightarrow> brightnessB (sample_stage t i s) \<le> brightnessB s)"
  by (simp add: sample_stage_fields ramp_step)

text \<open>Channel A tilted at brightness 0, channel B released at brightness 7.\<close>

theorem step_bounded_monotone_witness:
  "digitalRead \<lparr>millis = 5, digitalRead = (\<lambda>p. if p = 3 then 0 else 1)\<rparr> switchPinA = LOW
   \<and> digitalRead \<lparr>millis = 5, digitalRead = (\<lambda>p. if p = 3 then 0 else 1)\<rparr> switchPinB \<noteq> LOW
   \<and> brightnessA (init_state\<lparr>brightnessB := 7\<rparr>)
       \<le> brightnessA (sample_stage 5 \<lparr>millis = 5, digitalRead = (\<lambda>p. if p = 3 then 0 else 1)\<rparr>
            (init_state\<lparr>brightnessB := 7\<rparr>))
   \<and> brightnessB (sample_stage 5 \<lparr>millis = 5, digitalRead = (\<lambda>p. if p = 3 then 0 else 1)\<rparr>
            (init_state\<lparr>brightnessB := 7\<rparr>))
       \<le> brightnessB (init_state\<lparr>brightnessB := 7\<rparr>)"
  using step_bounded_monotone [of 5 "\<lparr>millis = 5, digitalRead = (\<lambda>p. if p = 3 then 0 else 1)\<rparr>"
      "init_state\<lparr>brightnessB := 7\<rparr>"]
  by (simp add: LOW_def switchPinA_def switchPinB_def)

section \<open>Ramps under a steady switch\<close>

lemma ticks_brightness:
  "brightnessA (ticks is s) = foldl (\<lambda>b i. ramp (digitalRead i switchPinA) b) (brightnessA s) is"
  "brightnessB (ticks is s) = foldl (\<lambda>b i. ramp (digitalRead i switchPinB) b) (brightnessB s) is"
  by (induction "is" arbitrary: s) (simp_all add: sample_stage_fields)

lemma ramp_up_fold:
  "\<forall>i\<in>set is. digitalRead i p = LOW \<Longrightarrow> b \<le> 255 \<Longrightarrow>
   foldl (\<lambda>b i. ramp (digitalRead i p) b) b is = min 255 (b + 2 * int (length is))"
proof (induction "is" arbitrary: b)
  case Nil
  then show ?case by simp
next
  case (Cons i "is")
  have step: "ramp (digitalRead i p) b = min 255 (b + 2)"
    using Cons.prems by (auto simp: ramp_def brightnessSteps_def Let_def)
  have "foldl (\<lambda>b i. ramp (digitalRead i p) b) (min 255 (b + 2)) is
        = min 255 (min 255 (b + 2) + 2 * int (length is))"
    using Cons.prems by (intro Cons.IH) auto
  then show ?case by (simp add: step min_def)
qed

lemma ramp_down_fold:
  "\<forall>i\<in>set is. digitalRead i p \<noteq> LOW \<Longrightarrow> 0 \<le> b \<Longrightarrow>
   foldl (\<lambda>b i. ramp (digitalRead i p) b) b is = max 0 (b - 2 * int (length is))"
proof (induction "is" arbitrary: b)
  case Nil
  then show ?case by simp
next
  case (Cons i "is")
  have step: "ramp (digitalRead i p) b = max 0 (b - 2)"
    using Cons.prems by (auto simp: ramp_def brightnessSteps_def Let_def)
  have "foldl (\<lambda>b i. ramp (digitalRead i p) b) (max 0 (b - 2)) is
        = max 0 (max 0 (b - 2) - 2 * int (length is))"
    using Cons.prems by (intro Cons.IH) auto
  then show ?case by (simp add: step max_def)
qed

lemma up_prefix:
  assumes "\<forall>i\<in>set is. digitalRead i p = LOW" "k \<le> length is"
  shows "foldl (\<lambda>b i. ramp (digitalRead i p) b) 0 (take k is)
         = (if k < 128 then 2 * int k else 255)"
proof -
  have "\<forall>i\<in>set (take k is). digitalRead i p = LOW"
    using assms(1) by (auto dest: in_set_takeD)
  then have "foldl (\<lambda>b i. ramp (digitalRead i p) b) 0 (take k is)
             = min 255 (0 + 2 * int (length (take k is)))"
    by (intro ramp_up_fold) auto
  with assms(2) show ?thesis by (auto simp: min_def)
qed

lemma down_prefix:
  assumes "\<forall>i\<in>set is. digitalRead i p \<noteq> LOW" "k \<le> length is"
  shows "foldl (\<lambda>b i. ramp (digitalRead i p) b) 255 (take k is)
         = (if k < 128 then 255 - 2 * int k else 0)"
proof -
  have "\<forall>i\<in>set (take k is). digitalRead i p \<noteq> LOW"
    using assms(1) by (auto dest: in_set_takeD)
  then have "foldl (\<lambda>b i. ramp (digitalRead i p) b) 255 (take k is)
             = max 0 (255 - 2 * int (length (take k is)))"
    by (intro ramp_down_fold) auto
  with assms(2) show ?thesis by (auto simp: max_def)
qed

text \<open>The clamping assignment runs exactly when the step taken is not the full step.\<close>

lemma clamp_runs_iff:
  "clamp_hi_runs sw b = (sw = LOW \<and> b < 255 \<and> ramp sw b \<noteq> b + brightnessSteps)"
  "clamp_lo_runs sw b = (sw \<noteq> LOW \<and> b > 0 \<and> ramp sw b \<noteq> b - brightnessSteps)"
  by (auto simp: clamp_hi_runs_def clamp_lo_runs_def ramp_def brightnessSteps_def Let_def)

lemma clamp_hi_once:
  "clamp_hi_runs LOW (if k < 128 then 2 * int k else 255) = (k = 127)"
  by (auto simp: clamp_hi_runs_def brightnessSteps_def)

text \<open>
  C3. A channel at brightness 0 whose switch reads LOW at every sample tick: after \<open>k\<close>
  ticks its brightness is \<open>2 * k\<close> for \<open>k < 128\<close> (2, 4, ..., 254) and 255 from the 128th
  tick on. The clamping assignment (line 165, resp. 180) executes at the tick that leaves
  the state after \<open>k\<close> ticks exactly when \<open>k = 127\<close>, that is at the 128th tick and at no
  other; there the brightness goes from 254 to 255.
\<close>

theorem tilted_from_zero:
  "(brightnessA s = 0 \<and> (\<forall>i\<in>set is. digitalRead i switchPinA = LOW) \<longrightarrow>
      (\<forall>k\<le>length is.
         brightnessA (ticks (take k is) s) = (if k < 128 then 2 * int k else 255))
      \<and> (\<forall>k<length is.
         clamp_hi_runs (digitalRead (is ! k) switchPinA) (brightnessA (ticks (take k is) s))
           = (k = 127)))
   \<and> (brightnessB s = 0 \<and> (\<forall>i\<in>set is. digitalRead i switchPinB = LOW) \<longrightarrow>
      (\<forall>k\<le>length is.
         brightnessB (ticks (take k is) s) = (if k < 128 then 2 * int k else 255))
      \<and> (\<forall>k<length is.
         clamp_hi_runs (digitalRead (is ! k) switchPinB) (brightnessB (ticks (take k is) s))
           = (k = 127)))"
  by (simp add: ticks_brightness up_prefix clamp_hi_once)

theorem tilted_from_zero_witness:
  "brightnessA (ticks (take 127 (replicate 130 \<lparr>millis = 0, digitalRead = (\<lambda>p. 0)\<rparr>)) init_state) = 254
   \<and> brightnessA (ticks (take 128 (replicate 130 \<lparr>millis = 0, digitalRead = (\<lambda>p. 0)\<rparr>)) init_state) = 255
   \<and> brightnessA (ticks (take 130 (replicate 130 \<lparr>millis = 0, digitalRead = (\<lambda>p. 0)\<rparr>)) init_state) = 255
   \<and> clamp_hi_runs (digitalRead (replicate 130 \<lparr>millis = 0, digitalRead = (\<lambda>p. 0)\<rparr> ! 127) switchPinA)
       (brightnessA (ticks (take 127 (replicate 130 \<lparr>millis = 0, digitalRead = (\<lambda>p. 0)\<rparr>)) init_state))
   \<and> \<not> clamp_hi_runs (digitalRead (replicate 130 \<lparr>millis = 0, digitalRead = (\<lambda>p. 0)\<rparr> ! 128) switchPinA)
       (brightnessA (ticks (take 128 (replicate 130 \<lparr>millis = 0, digitalRead = (\<lambda>p. 0)\<rparr>)) init_state))"
proof -
  let ?is = "replicate 130 \<lparr>millis = 0, digitalRead = (\<lambda>p. 0::int)\<rparr>"
  have pre: "brightnessA init_state = 0 \<and> (\<forall>i\<in>set ?is. digitalRead i switchPinA = LOW)"
    by (simp add: init_state_def LOW_def)
  from tilted_from_zero [of init_state ?is] pre
  have seq: "\<forall>k\<le>length ?is.
               brightnessA (ticks (take k ?is) init_state) = (if k < 128 then 2 * int k else 255)"
    and cl: "\<forall>k<length ?is.
               clamp_hi_runs (digitalRead (?is ! k) switchPinA)
                 (brightnessA (ticks (take k ?is) init_state)) = (k = 127)"
    by blast+
  from seq [rule_format, of 127] seq [rule_format, of 128] seq [rule_format, of 130]
    cl [rule_format, of 127] cl [rule_format, of 128]
  show ?thesis by simp
qed

text \<open>
  C4. A channel at brightness 255 whose switch reads anything but LOW at every sample
  tick: after \<open>k\<close> ticks its brightness is \<open>255 - 2 * k\<close> for \<open>k < 128\<close> (253, ..., 1) and 0
  from the 128th tick on.
\<close>

theorem released_from_full:
  "(brightnessA s = 255 \<and> (\<forall>i\<in>set is. digitalRead i switchPinA \<noteq> LOW) \<longrightarrow>
      (\<forall>k\<le>length is.
         brightnessA (ticks (take k is) s) = (if k < 128 then 255 - 2 * int k else 0)))
   \<and> (brightnessB s = 255 \<and> (\<forall>i\<in>set is. digitalRead i switchPinB \<noteq> LOW) \<longrightarrow>
      (\<forall>k\<le>length is.
         brightnessB (ticks (take k is) s) = (if k < 128 then 255 - 2 * int k else 0)))"
  by (simp add: ticks_brightness down_prefix)

theorem released_from_full_witness:
  "brightnessB (ticks (take 127 (replicate 200 \<lparr>millis = 0, digitalRead = (\<lambda>p. 1)\<rparr>))
       (init_state\<lparr>brightnessB := 255\<rparr>)) = 1
   \<and> brightnessB (ticks (take 128 (replicate 200 \<lparr>millis = 0, digitalRead = (\<lambda>p. 1)\<rparr>))
       (init_state\<lparr>brightnessB := 255\<rparr>)) = 0
   \<and> brightnessB (ticks (take 200 (replicate 200 \<lparr>millis = 0, digitalRead = (\<lambda>p. 1)\<rparr>))
       (init_state\<lparr>brightnessB := 255\<rparr>)) = 0"
proof -
  let ?is = "replicate 200 \<lparr>millis = 0, digitalRead = (\<lambda>p. 1::int)\<rparr>"
  let ?s = "init_state\<lparr>brightnessB := 255\<rparr>"
  have pre: "brightnessB ?s = 255 \<and> (\<forall>i\<in>set ?is. digitalRead i switchPinB \<noteq> LOW)"
    by (simp add: LOW_def)
  from released_from_full [of ?s ?is] pre
  have seq: "\<forall>k\<le>length ?is.
               brightnessB (ticks (take k ?is) ?s) = (if k < 128 then 255 - 2 * int k else 0)"
    by blast
  from seq [rule_format, of 127] seq [rule_format, of 128] seq [rule_format, of 200]
  show ?thesis by simp
qed

section \<open>Startup\<close>

lemma boot_out:
  "out (boot i0) =
     [PinMode switchPinA INPUT, PinMode ledPinA OUTPUT,
      PinMode switchPinB INPUT, PinMode ledPinB OUTPUT,
      TftInit, SetRotation 0, FillScreen TFT_BLACK, SetTextFont 2,
      SetTextColor TFT_WHITE TFT_BLACK,
      FillScreen TFT_BLACK, SetTextFont 2, SetTextColor TFT_WHITE TFT_BLACK,
      SetCursor 0 0,
      Println ''---------------------------'',
      Println '' KY027 Magic Light Cups'',
      Println ''---------------------------'',
      SetCursor 0 70, PrintStr ''LED A Brightness:'',
      SetCursor 0 120, PrintStr ''LED B Brightness:'',
      AnalogWrite ledPinA (brightnessA (boot i0)),
      AnalogWrite ledPinB (brightnessB (boot i0))]"
  by (simp add: boot_def setup_def init_state_def Let_def emits_def drawStaticElements_def)

text \<open>The output of one iteration of \<open>loop\<close>: what the sample stage writes, then what the
  render stage draws.\<close>

lemma loop_out:
  "out (loop i s) = out s
     @ (if sample_due (millis i) s
        then [AnalogWrite ledPinA (brightnessA (loop i s)),
              AnalogWrite ledPinB (brightnessB (loop i s))]
        else [])
     @ (if render_due (millis i) s
        then [SetCursor 0 90, PrintStr ''      '', SetCursor 0 90,
              PrintInt (brightnessA (loop i s)),
              SetCursor 0 140, PrintStr ''      '', SetCursor 0 140,
              PrintInt (brightnessB (loop i s))]
        else [])"
  by (simp add: loop_def Let_def sample_stage_fields render_stage_eq render_due_def)

lemma loop_out_prefix: "prefix (out s) (out (loop i s))"
  by (subst loop_out) simp

lemma run_out_prefix: "prefix (out s) (out (run ins s))"
proof (induction ins arbitrary: s)
  case Nil
  show ?case by simp
next
  case (Cons i ins)
  have "prefix (out s) (out (loop i s))" by (rule loop_out_prefix)
  also have "prefix (out (loop i s)) (out (run ins (loop i s)))" by (rule Cons.IH)
  finally show ?case by simp
qed

text \<open>
  C5. After \<open>setup\<close> on the globals' initial values, each brightness is 255 when that
  channel's switch read LOW and 0 otherwise. The GPIO calls of \<open>setup\<close> are the four
  \<open>pinMode\<close>s followed by the two \<open>analogWrite\<close>s of the seeded values, A then B, and
  everything any later iteration of \<open>loop\<close> outputs comes after them.
\<close>

theorem startup_seed:
  "brightnessA (boot i0) = (if digitalRead i0 switchPinA = LOW then 255 else 0)
   \<and> brightnessB (boot i0) = (if digitalRead i0 switchPinB = LOW then 255 else 0)
   \<and> filter (\<lambda>e. \<not> is_display e) (out (boot i0)) =
       [PinMode switchPinA INPUT, PinMode ledPinA OUTPUT,
        PinMode switchPinB INPUT, PinMode ledPinB OUTPUT,
        AnalogWrite ledPinA (brightnessA (boot i0)), AnalogWrite ledPinB (brightnessB (boot i0))]
   \<and> prefix (out (boot i0)) (out (run ins (boot i0)))"
proof -
  have "filter (\<lambda>e. \<not> is_display e) (out (boot i0)) =
       [PinMode switchPinA INPUT, PinMode ledPinA OUTPUT,
        PinMode switchPinB INPUT, PinMode ledPinB OUTPUT,
        AnalogWrite ledPinA (brightnessA (boot i0)), AnalogWrite ledPinB (brightnessB (boot i0))]"
    by (subst boot_out) simp
  moreover have "prefix (out (boot i0)) (out (run ins (boot i0)))"
    by (rule run_out_prefix)
  ultimately show ?thesis
    by (simp only: boot_fields simp_thms)
qed

section \<open>The two timers\<close>

lemma due_unat:
  "sample_due t s = (5 \<le> unat (t - previousReadMillis s))"
  "render_due t s = (100 \<le> unat (t - previousUpdateMillis s))"
  by (simp_all add: sample_due_def render_due_def readInterval_def updateInterval_def
      word_le_nat_alt)

text \<open>The sample stage leaves the render timestamp alone, so the second test of \<open>loop\<close>
  gives what it would have given at entry.\<close>

lemma loop_fires_eq: "loop_fires i s = (sample_due (millis i) s, render_due (millis i) s)"
  by (simp add: loop_fires_def Let_def render_due_def sample_stage_fields)

text \<open>What an iteration appends to the output, and so which stages executed in it.\<close>

lemma emitted_eq:
  "emitted i s =
     (if sample_due (millis i) s
      then [AnalogWrite ledPinA (brightnessA (loop i s)),
            AnalogWrite ledPinB (brightnessB (loop i s))]
      else [])
     @ (if render_due (millis i) s
        then [SetCursor 0 90, PrintStr ''      '', SetCursor 0 90,
              PrintInt (brightnessA (loop i s)),
              SetCursor 0 140, PrintStr ''      '', SetCursor 0 140,
              PrintInt (brightnessB (loop i s))]
        else [])"
  unfolding emitted_def by (subst loop_out) simp

lemma ran_eq:
  "sample_ran i s = sample_due (millis i) s"
  "render_ran i s = render_due (millis i) s"
  by (simp_all add: sample_ran_def render_ran_def emitted_eq)

lemma loop_idle:
  "\<not> sample_due (millis i) s \<Longrightarrow>
     switchStateA (loop i s) = switchStateA s \<and> switchStateB (loop i s) = switchStateB s
     \<and> brightnessA (loop i s) = brightnessA s \<and> brightnessB (loop i s) = brightnessB s
     \<and> previousReadMillis (loop i s) = previousReadMillis s"
  "\<not> render_due (millis i) s \<Longrightarrow> previousUpdateMillis (loop i s) = previousUpdateMillis s"
  by (simp add: loop_def Let_def render_stage_eq) (simp add: loop_fields)

lemma loop_counts:
  "length (filter is_pwm (out (loop i s))) =
     length (filter is_pwm (out s)) + (if sample_ran i s then 2 else 0)"
  "length (filter is_display (out (loop i s))) =
     length (filter is_display (out s)) + (if render_ran i s then 8 else 0)"
  by (subst loop_out, simp add: ran_eq)+

lemma run_counts:
  "length (filter is_pwm (out (run ins s))) =
     length (filter is_pwm (out s)) + 2 * length (sample_times ins s)"
  "length (filter is_display (out (run ins s))) =
     length (filter is_display (out s)) + 8 * length (render_times ins s)"
  by (induction ins arbitrary: s) (simp_all add: loop_counts)

lemma sample_times_gap:
  "successively (\<lambda>t1 t2. 5 \<le> unat (t2 - t1)) (sample_times ins s)
   \<and> (sample_times ins s = [] \<or> 5 \<le> unat (hd (sample_times ins s) - previousReadMillis s))"
proof (induction ins arbitrary: s)
  case Nil
  show ?case by simp
next
  case (Cons i ins)
  show ?case
  proof (cases "sample_due (millis i) s")
    case True
    then have prev: "previousReadMillis (loop i s) = millis i"
      by (simp add: loop_fields)
    from True Cons.IH [of "loop i s"] show ?thesis
      by (simp add: ran_eq prev successively_Cons due_unat)
  next
    case False
    then have prev: "previousReadMillis (loop i s) = previousReadMillis s"
      by (simp add: loop_fields)
    from False Cons.IH [of "loop i s"] show ?thesis
      by (simp add: ran_eq prev)
  qed
qed

lemma render_times_gap:
  "successively (\<lambda>t1 t2. 100 \<le> unat (t2 - t1)) (render_times ins s)
   \<and> (render_times ins s = []
       \<or> 100 \<le> unat (hd (render_times ins s) - previousUpdateMillis s))"
proof (induction ins arbitrary: s)
  case Nil
  show ?case by simp
next
  case (Cons i ins)
  show ?case
  proof (cases "render_due (millis i) s")
    case True
    then have prev: "previousUpdateMillis (loop i s) = millis i"
      by (simp add: loop_fields)
    from True Cons.IH [of "loop i s"] show ?thesis
      by (simp add: ran_eq prev successively_Cons due_unat)
  next
    case False
    then have prev: "previousUpdateMillis (loop i s) = previousUpdateMillis s"
      by (simp add: loop_fields)
    from False Cons.IH [of "loop i s"] show ?thesis
      by (simp add: ran_eq prev)
  qed
qed

text \<open>
  The clock is a 32-bit millisecond counter, so the time between two readings is known
  modulo \<open>2 ^ 32\<close> only, and the difference of the readings is the least time that can have
  passed: for a clock that never runs backwards, at least that much has.
\<close>

lemma elapsed_ge_reading_diff:
  assumes "T1 \<le> T2"
  shows "unat (word_of_nat T2 - word_of_nat T1 :: ulong) \<le> T2 - T1"
proof -
  from assms have "(word_of_nat T2 - word_of_nat T1 :: ulong) = word_of_nat (T2 - T1)"
    by simp
  then show ?thesis
    by (simp add: unat_of_nat)
qed

lemma sample_real_gap:
  "clocked T0 xs \<Longrightarrow> previousReadMillis s = word_of_nat Tp \<Longrightarrow> Tp \<le> T0 \<Longrightarrow>
   successively (\<lambda>T1 T2. T1 + 5 \<le> T2) (sample_real_times xs s)
   \<and> (sample_real_times xs s = [] \<or> Tp + 5 \<le> hd (sample_real_times xs s))"
proof (induction xs arbitrary: s T0 Tp)
  case Nil
  show ?case by simp
next
  case (Cons x xs)
  obtain T i where x: "x = (T, i)" by (cases x)
  from Cons.prems x have T: "T0 \<le> T" "millis i = word_of_nat T" "clocked T xs"
    by simp_all
  show ?case
  proof (cases "sample_due (millis i) s")
    case True
    then have prev: "previousReadMillis (loop i s) = word_of_nat T"
      by (simp add: loop_fields T)
    from True have "5 \<le> unat (word_of_nat T - word_of_nat Tp :: ulong)"
      by (simp add: due_unat T Cons.prems)
    moreover have "unat (word_of_nat T - word_of_nat Tp :: ulong) \<le> T - Tp"
      using T(1) Cons.prems(3) by (intro elapsed_ge_reading_diff) simp
    ultimately have gap: "Tp + 5 \<le> T" using T(1) Cons.prems(3) by linarith
    from Cons.IH [OF T(3) prev order_refl] True gap show ?thesis
      by (simp add: x ran_eq successively_Cons)
  next
    case False
    then have prev: "previousReadMillis (loop i s) = word_of_nat Tp"
      by (simp add: loop_fields Cons.prems)
    have "Tp \<le> T" using T(1) Cons.prems(3) by simp
    from Cons.IH [OF T(3) prev this] False show ?thesis
      by (simp add: x ran_eq)
  qed
qed

lemma render_real_gap:
  "clocked T0 xs \<Longrightarrow> previousUpdateMillis s = word_of_nat Tp \<Longrightarrow> Tp \<le> T0 \<Longrightarrow>
   successively (\<lambda>T1 T2. T1 + 100 \<le> T2) (render_real_times xs s)
   \<and> (render_real_times xs s = [] \<or> Tp + 100 \<le> hd (render_real_times xs s))"
proof (induction xs arbitrary: s T0 Tp)
  case Nil
  show ?case by simp
next
  case (Cons x xs)
  obtain T i where x: "x = (T, i)" by (cases x)
  from Cons.prems x have T: "T0 \<le> T" "millis i = word_of_nat T" "clocked T xs"
    by simp_all
  show ?case
  proof (cases "render_due (millis i) s")
    case True
    then have prev: "previousUpdateMillis (loop i s) = word_of_nat T"
      by (simp add: loop_fields T)
    from True have "100 \<le> unat (word_of_nat T - word_of_nat Tp :: ulong)"
      by (simp add: due_unat T Cons.prems)
    moreover have "unat (word_of_nat T - word_of_nat Tp :: ulong) \<le> T - Tp"
      using T(1) Cons.prems(3) by (intro elapsed_ge_reading_diff) simp
    ultimately have gap: "Tp + 100 \<le> T" using T(1) Cons.prems(3) by linarith
    from Cons.IH [OF T(3) prev order_refl] True gap show ?thesis
      by (simp add: x ran_eq successively_Cons)
  next
    case False
    then have prev: "previousUpdateMillis (loop i s) = word_of_nat Tp"
      by (simp add: loop_fields Cons.prems)
    have "Tp \<le> T" using T(1) Cons.prems(3) by simp
    from Cons.IH [OF T(3) prev this] False show ?thesis
      by (simp add: x ran_eq)
  qed
qed

text \<open>
  C6. An execution of a stage is read off what \<open>loop\<close> itself does: the sample stage has
  executed in an iteration when the iteration wrote PWM, the render stage when it drew.
  Over any run of \<open>loop\<close>, from any state (the one after startup included) and for any
  clock readings and switch readings, two consecutive executions of the sample stage are
  at least 5 apart and two consecutive executions of the render stage at least 100 apart,
  in the 32-bit difference of their clock readings. These executions are all there are:
  the run writes PWM twice per listed sample time and makes eight calls of the TFT driver
  per listed render time, and an iteration in which the sample stage did not execute
  leaves both switch states, both brightness values and the sample timestamp as they
  were (one in which the render stage did not execute, the render timestamp). So calling
  \<open>loop\<close> again at the same or a close reading reads, fades, writes and draws nothing.
  In real time, for iterations after startup that read a wrapping millisecond clock,
  consecutive executions are at least 5 resp. 100 milliseconds apart, however long the
  run and however often the clock has wrapped.
\<close>

theorem rate_limit:
  "successively (\<lambda>t1 t2. 5 \<le> unat (t2 - t1)) (sample_times ins s)
   \<and> successively (\<lambda>t1 t2. 100 \<le> unat (t2 - t1)) (render_times ins s)
   \<and> length (filter is_pwm (out (run ins s))) =
       length (filter is_pwm (out s)) + 2 * length (sample_times ins s)
   \<and> length (filter is_display (out (run ins s))) =
       length (filter is_display (out s)) + 8 * length (render_times ins s)
   \<and> (\<not> sample_ran i s \<longrightarrow>
        switchStateA (loop i s) = switchStateA s \<and> switchStateB (loop i s) = switchStateB s
        \<and> brightnessA (loop i s) = brightnessA s \<and> brightnessB (loop i s) = brightnessB s
        \<and> previousReadMillis (loop i s) = previousReadMillis s)
   \<and> (\<not> render_ran i s \<longrightarrow> previousUpdateMillis (loop i s) = previousUpdateMillis s)
   \<and> (clocked 0 xs \<longrightarrow>
        successively (\<lambda>T1 T2. T1 + 5 \<le> T2) (sample_real_times xs (boot i0))
        \<and> successively (\<lambda>T1 T2. T1 + 100 \<le> T2) (render_real_times xs (boot i0)))"
proof -
  have "successively (\<lambda>T1 T2. T1 + 5 \<le> T2) (sample_real_times xs (boot i0))"
    if "clocked 0 xs"
    using sample_real_gap [OF that, of "boot i0" 0] by (simp add: boot_fields)
  moreover have "successively (\<lambda>T1 T2. T1 + 100 \<le> T2) (render_real_times xs (boot i0))"
    if "clocked 0 xs"
    using render_real_gap [OF that, of "boot i0" 0] by (simp add: boot_fields)
  moreover have "switchStateA (loop i s) = switchStateA s \<and> switchStateB (loop i s) = switchStateB s
        \<and> brightnessA (loop i s) = brightnessA s \<and> brightnessB (loop i s) = brightnessB s
        \<and> previousReadMillis (loop i s) = previousReadMillis s"
    if "\<not> sample_ran i s"
    using that by (intro loop_idle(1)) (simp add: ran_eq)
  moreover have "previousUpdateMillis (loop i s) = previousUpdateMillis s"
    if "\<not> render_ran i s"
    using that by (intro loop_idle(2)) (simp add: ran_eq)
  moreover note sample_times_gap [of ins s] render_times_gap [of ins s]
    run_counts [of ins s]
  ultimately show ?thesis
    by blast
qed

text \<open>
  Polling at 3, 5, 5, 9, 10, 100, 104, 105 and 200 ms, then across the wrap of the clock;
  and the first of these polls, 3 ms after startup with the switches tilted, in which
  neither stage executes.
\<close>

theorem rate_limit_witness:
  "clocked 0 (map (\<lambda>T. (T, \<lparr>millis = word_of_nat T, digitalRead = (\<lambda>p. 1)\<rparr>))
       [3, 5, 5, 9, 10, 100, 104, 105, 200, 4294967295, 4294967298, 4294967300])
   \<and> sample_real_times (map (\<lambda>T. (T, \<lparr>millis = word_of_nat T, digitalRead = (\<lambda>p. 1)\<rparr>))
       [3, 5, 5, 9, 10, 100, 104, 105, 200, 4294967295, 4294967298, 4294967300])
       (boot \<lparr>millis = 0, digitalRead = (\<lambda>p. 1)\<rparr>)
     = [5, 10, 100, 105, 200, 4294967295, 4294967300]
   \<and> successively (\<lambda>T1 T2. T1 + 5 \<le> T2)
       (sample_real_times (map (\<lambda>T. (T, \<lparr>millis = word_of_nat T, digitalRead = (\<lambda>p. 1)\<rparr>))
          [3, 5, 5, 9, 10, 100, 104, 105, 200, 4294967295, 4294967298, 4294967300])
          (boot \<lparr>millis = 0, digitalRead = (\<lambda>p. 1)\<rparr>))
   \<and> render_real_times (map (\<lambda>T. (T, \<lparr>millis = word_of_nat T, digitalRead = (\<lambda>p. 1)\<rparr>))
       [3, 5, 5, 9, 10, 100, 104, 105, 200, 4294967295, 4294967298, 4294967300])
       (boot \<lparr>millis = 0, digitalRead = (\<lambda>p. 1)\<rparr>)
     = [100, 200, 4294967295]
   \<and> successively (\<lambda>T1 T2. T1 + 100 \<le> T2)
       (render_real_times (map (\<lambda>T. (T, \<lparr>millis = word_of_nat T, digitalRead = (\<lambda>p. 1)\<rparr>))
          [3, 5, 5, 9, 10, 100, 104, 105, 200, 4294967295, 4294967298, 4294967300])
          (boot \<lparr>millis = 0, digitalRead = (\<lambda>p. 1)\<rparr>))
   \<and> \<not> sample_ran \<lparr>millis = 3, digitalRead = (\<lambda>p. 0)\<rparr> (boot \<lparr>millis = 0, digitalRead = (\<lambda>p. 1)\<rparr>)
   \<and> \<not> render_ran \<lparr>millis = 3, digitalRead = (\<lambda>p. 0)\<rparr> (boot \<lparr>millis = 0, digitalRead = (\<lambda>p. 1)\<rparr>)
   \<and> brightnessA (loop \<lparr>millis = 3, digitalRead = (\<lambda>p. 0)\<rparr> (boot \<lparr>millis = 0, digitalRead = (\<lambda>p. 1)\<rparr>))
       = brightnessA (boot \<lparr>millis = 0, digitalRead = (\<lambda>p. 1)\<rparr>)
   \<and> switchStateA (loop \<lparr>millis = 3, digitalRead = (\<lambda>p. 0)\<rparr> (boot \<lparr>millis = 0, digitalRead = (\<lambda>p. 1)\<rparr>))
       = switchStateA (boot \<lparr>millis = 0, digitalRead = (\<lambda>p. 1)\<rparr>)
   \<and> previousReadMillis (loop \<lparr>millis = 3, digitalRead = (\<lambda>p. 0)\<rparr> (boot \<lparr>millis = 0, digitalRead = (\<lambda>p. 1)\<rparr>))
       = previousReadMillis (boot \<lparr>millis = 0, digitalRead = (\<lambda>p. 1)\<rparr>)
   \<and> previousUpdateMillis (loop \<lparr>millis = 3, digitalRead = (\<lambda>p. 0)\<rparr> (boot \<lparr>millis = 0, digitalRead = (\<lambda>p. 1)\<rparr>))
       = previousUpdateMillis (boot \<lparr>millis = 0, digitalRead = (\<lambda>p. 1)\<rparr>)"
proof -
  let ?xs = "map (\<lambda>T. (T, \<lparr>millis = word_of_nat T, digitalRead = (\<lambda>p::int. 1::int)\<rparr>))
       [3, 5, 5, 9, 10, 100, 104, 105, 200, 4294967295, 4294967298, 4294967300]"
  let ?start = "\<lparr>millis = 0, digitalRead = (\<lambda>p::int. 1::int)\<rparr>"
  let ?poll = "\<lparr>millis = 3, digitalRead = (\<lambda>p::int. 0::int)\<rparr>"
  have c: "clocked 0 ?xs"
    by simp
  have s: "sample_real_times ?xs (boot ?start) = [5, 10, 100, 105, 200, 4294967295, 4294967300]"
    by (simp add: ran_eq sample_due_def loop_fields boot_fields readInterval_def)
  have r: "render_real_times ?xs (boot ?start) = [100, 200, 4294967295]"
    by (simp add: ran_eq render_due_def loop_fields boot_fields updateInterval_def)
  have idle: "\<not> sample_ran ?poll (boot ?start)" "\<not> render_ran ?poll (boot ?start)"
    by (simp_all add: ran_eq sample_due_def render_due_def boot_fields readInterval_def
        updateInterval_def)
  from rate_limit [of "[]" "boot ?start" ?poll ?xs ?start] c idle
  have lim: "successively (\<lambda>T1 T2. T1 + 5 \<le> T2) (sample_real_times ?xs (boot ?start))"
    "successively (\<lambda>T1 T2. T1 + 100 \<le> T2) (render_real_times ?xs (boot ?start))"
    "brightnessA (loop ?poll (boot ?start)) = brightnessA (boot ?start)"
    "switchStateA (loop ?poll (boot ?start)) = switchStateA (boot ?start)"
    "previousReadMillis (loop ?poll (boot ?start)) = previousReadMillis (boot ?start)"
    "previousUpdateMillis (loop ?poll (boot ?start)) = previousUpdateMillis (boot ?start)"
    by blast+
  show ?thesis
    by (intro conjI c s r idle lim)
qed

text \<open>
  C7. One iteration of \<open>loop\<close> reads the clock once. Whether the sample stage runs depends
  on that reading and the sample timestamp only, whether the render stage runs on that
  reading and the render timestamp only (the outcome of the second test is what it would
  have been at entry). What the sample stage writes precedes what the render stage draws,
  and a stage that runs stores that same reading in its own timestamp. All four
  combinations occur in runs from startup.
\<close>

theorem stage_order:
  "loop_fires i s = (sample_due (millis i) s, render_due (millis i) s)
   \<and> sample_due t (s\<lparr>previousUpdateMillis := u\<rparr>) = sample_due t s
   \<and> render_due t (s\<lparr>previousReadMillis := u\<rparr>) = render_due t s
   \<and> out (loop i s) = out s
       @ (if sample_due (millis i) s
          then [AnalogWrite ledPinA (brightnessA (loop i s)),
                AnalogWrite ledPinB (brightnessB (loop i s))]
          else [])
       @ (if render_due (millis i) s
          then [SetCursor 0 90, PrintStr ''      '', SetCursor 0 90,
                PrintInt (brightnessA (loop i s)),
                SetCursor 0 140, PrintStr ''      '', SetCursor 0 140,
                PrintInt (brightnessB (loop i s))]
          else [])
   \<and> previousReadMillis (loop i s) =
       (if sample_due (millis i) s then millis i else previousReadMillis s)
   \<and> previousUpdateMillis (loop i s) =
       (if render_due (millis i) s then millis i else previousUpdateMillis s)
   \<and> (\<exists>i0 ins j. loop_fires j (run ins (boot i0)) = (True, True))
   \<and> (\<exists>i0 ins j. loop_fires j (run ins (boot i0)) = (True, False))
   \<and> (\<exists>i0 ins j. loop_fires j (run ins (boot i0)) = (False, True))
   \<and> (\<exists>i0 ins j. loop_fires j (run ins (boot i0)) = (False, False))"
proof -
  let ?at = "\<lambda>t::ulong. \<lparr>millis = t, digitalRead = (\<lambda>p::int. 1::int)\<rparr>"
  have both: "loop_fires (?at 100) (run [] (boot (?at 0))) = (True, True)"
    by (simp add: loop_fires_eq sample_due_def render_due_def boot_fields
        readInterval_def updateInterval_def)
  have sample_only: "loop_fires (?at 5) (run [] (boot (?at 0))) = (True, False)"
    by (simp add: loop_fires_eq sample_due_def render_due_def boot_fields
        readInterval_def updateInterval_def)
  have render_only:
    "loop_fires (?at 200) (run [?at 100, ?at 198] (boot (?at 0))) = (False, True)"
    by (simp add: loop_fires_eq sample_due_def render_due_def loop_fields boot_fields
        readInterval_def updateInterval_def)
  have neither: "loop_fires (?at 0) (run [] (boot (?at 0))) = (False, False)"
    by (simp add: loop_fires_eq sample_due_def render_due_def boot_fields
        readInterval_def updateInterval_def)
  have ex: "(\<exists>i0 ins j. loop_fires j (run ins (boot i0)) = (True, True))
     \<and> (\<exists>i0 ins j. loop_fires j (run ins (boot i0)) = (True, False))
     \<and> (\<exists>i0 ins j. loop_fires j (run ins (boot i0)) = (False, True))
     \<and> (\<exists>i0 ins j. loop_fires j (run ins (boot i0)) = (False, False))"
    using both sample_only render_only neither by blast
  have gates: "sample_due t (s\<lparr>previousUpdateMillis := u\<rparr>) = sample_due t s
     \<and> render_due t (s\<lparr>previousReadMillis := u\<rparr>) = render_due t s"
    by (simp add: sample_due_def render_due_def)
  show ?thesis
    using ex gates loop_out [of i s] loop_fields(3,4) [of i s] loop_fires_eq [of i s]
    by (simp only: simp_thms)
qed

section \<open>The display\<close>

lemma loop_labels: "filter is_label (out (loop i s)) = filter is_label (out s)"
  by (subst loop_out) simp

lemma run_labels: "filter is_label (out (run ins s)) = filter is_label (out s)"
  by (induction ins arbitrary: s) (simp_all add: loop_labels)

lemma boot_labels:
  "filter is_label (out (boot i0)) =
     [Println ''---------------------------'',
      Println '' KY027 Magic Light Cups'',
      Println ''---------------------------'',
      PrintStr ''LED A Brightness:'', PrintStr ''LED B Brightness:'']"
  by (subst boot_out) simp

text \<open>
  C8. An execution of the render stage draws, for each of the two fields in turn: the
  cursor to the field's position, six spaces, the cursor to the same position again, the
  brightness value. Over any run from startup the header lines and the labels are the
  only text drawn besides the blanks and the numbers, each once: \<open>setup\<close> draws them, and
  no iteration of \<open>loop\<close>, from any state, draws one.
\<close>

theorem render_blanks_then_prints:
  "out (render_stage t s) = out s @
     [SetCursor 0 90, PrintStr ''      '', SetCursor 0 90, PrintInt (brightnessA s),
      SetCursor 0 140, PrintStr ''      '', SetCursor 0 140, PrintInt (brightnessB s)]
   \<and> filter is_label (out (run ins (boot i0))) =
       [Println ''---------------------------'',
        Println '' KY027 Magic Light Cups'',
        Println ''---------------------------'',
        PrintStr ''LED A Brightness:'', PrintStr ''LED B Brightness:'']
   \<and> filter is_label (out (loop i s)) = filter is_label (out s)
   \<and> filter is_label (out (run ins s)) = filter is_label (out s)"
  by (simp add: render_stage_eq run_labels loop_labels boot_labels)

text \<open>
  C10. The render stage (the body of the second \<open>if\<close> of \<open>loop\<close>) changes two components
  of the state: it stores the clock reading in \<open>previousUpdateMillis\<close> and appends eight
  calls of the TFT driver to the output. Both brightness values, both switch states and
  \<open>previousReadMillis\<close> are as before, and no GPIO call is made. \<open>updateDynamicElements\<close>
  on its own changes the output only.
\<close>

theorem render_frame:
  "render_stage t s = s\<lparr>previousUpdateMillis := t,
      out := out s @
        [SetCursor 0 90, PrintStr ''      '', SetCursor 0 90, PrintInt (brightnessA s),
         SetCursor 0 140, PrintStr ''      '', SetCursor 0 140, PrintInt (brightnessB s)]\<rparr>
   \<and> updateDynamicElements s = s\<lparr>out := out s @
        [SetCursor 0 90, PrintStr ''      '', SetCursor 0 90, PrintInt (brightnessA s),
         SetCursor 0 140, PrintStr ''      '', SetCursor 0 140, PrintInt (brightnessB s)]\<rparr>
   \<and> brightnessA (render_stage t s) = brightnessA s
   \<and> brightnessB (render_stage t s) = brightnessB s
   \<and> switchStateA (render_stage t s) = switchStateA s
   \<and> switchStateB (render_stage t s) = switchStateB s
   \<and> previousReadMillis (render_stage t s) = previousReadMillis s
   \<and> previousUpdateMillis (render_stage t s) = t
   \<and> filter (\<lambda>e. \<not> is_display e) (out (render_stage t s)) = filter (\<lambda>e. \<not> is_display e) (out s)"
  by (simp add: render_stage_eq updateDynamicElements_def emits_def)

end
